theory Spec2Isabelle
  imports Main
begin

section \<open>The S3 output plugin of cowrie (src/cowrie/output/s3.py)\<close>

text \<open>
  The plugin receives one event record per call of \<^verbatim>\<open>Output.write\<close>, derives an object
  key from it and hands key and file to \<^verbatim>\<open>Output.upload\<close>, which consults the set
  \<^verbatim>\<open>self.seen\<close>, probes the bucket with \<^verbatim>\<open>head_object\<close> and stores the file with
  \<^verbatim>\<open>put_object\<close>.

  The embedding is sequential: \<^verbatim>\<open>upload\<close> is an \<^verbatim>\<open>inlineCallbacks\<close> generator, and the
  model runs it to completion, with the outcome of its Deferred as an explicit result
  (\<open>Inl\<close> an exception, \<open>Inr ()\<close> a normal return). Interleavings of several pending
  uploads on the reactor are outside the model.
\<close>

subsection \<open>Python values and exceptions\<close>

text \<open>
  The values an event record carries. Dictionaries are association lists in insertion
  order, with string keys; floats are left out. \<open>PBytes b\<close> is a bytes object and
  \<open>PObj t\<close> an object of another type \<open>t\<close> that the json module cannot encode (a set, an
  instance of a class). Two more constructors stand for what a finite tree cannot hold:
  \<open>PCycle\<close> is a reference to a list or dict that encloses it (after
  \<^verbatim>\<open>entry["self"] = entry\<close> the record is \<open>[(''self'', PCycle)]\<close>), and \<open>PDeep out\<close> is a
  list or dict nested deeper than the stack of the interpreter allows, \<open>out\<close> being the
  text the encoder produces for it before the stack is exhausted.
\<close>

datatype pyval =
    PStr string
  | PInt int
  | PBool bool
  | PNone
  | PList "pyval list"
  | PDict "(string \<times> pyval) list"
  | PObj string
  | PBytes string
  | PCycle
  | PDeep string

type_synonym entry = "(string \<times> pyval) list"

datatype exn =
    KeyError string
  | TypeError string
  | ValueError string
  | RecursionError
  | ClientError string
  | BotoCoreError string
  | FileNotFoundError string
  | OSError string

text \<open>\<^verbatim>\<open>isinstance(x, TypeError)\<close>, the test of the clause \<^verbatim>\<open>except TypeError\<close>.\<close>

fun is_TypeError :: "exn \<Rightarrow> bool" where
  "is_TypeError (TypeError t) = True"
| "is_TypeError x = False"

text \<open>\<^verbatim>\<open>entry[k]\<close>: a missing key raises KeyError.\<close>

definition getitem :: "entry \<Rightarrow> string \<Rightarrow> exn + pyval" where
  "getitem e k = (case map_of e k of None \<Rightarrow> Inl (KeyError k) | Some v \<Rightarrow> Inr v)"

text \<open>\<^verbatim>\<open>prefix + v\<close> for a str \<open>prefix\<close>: anything but a str on the right raises TypeError.\<close>

definition str_add :: "string \<Rightarrow> pyval \<Rightarrow> exn + string" where
  "str_add p v = (case v of PStr s \<Rightarrow> Inr (p @ s) | _ \<Rightarrow> Inl (TypeError ''can only concatenate str''))"

text \<open>
  Python truth value, as \<^verbatim>\<open>and entry['session']\<close> tests it. A container that encloses
  a reference to itself or is nested too deep is not empty. An object of another type
  never reaches this test in \<^verbatim>\<open>write\<close> (json.dump raises first); it is taken as true.
\<close>

fun truthy :: "pyval \<Rightarrow> bool" where
  "truthy (PStr s) = (s \<noteq> [])"
| "truthy (PInt i) = (i \<noteq> 0)"
| "truthy (PBool b) = b"
| "truthy PNone = False"
| "truthy (PList xs) = (xs \<noteq> [])"
| "truthy (PDict kvs) = (kvs \<noteq> [])"
| "truthy (PObj t) = True"
| "truthy (PBytes b) = (b \<noteq> [])"
| "truthy PCycle = True"
| "truthy (PDeep out) = True"

subsection \<open>The json encoder\<close>

text \<open>
  \<^verbatim>\<open>json.dump\<close> and \<^verbatim>\<open>json.dumps\<close> with their defaults but for the separators
  (\<^verbatim>\<open>ensure_ascii=True\<close>): a string is quoted, with \<^verbatim>\<open>"\<close>, the backslash and every
  character outside \<^verbatim>\<open>' '..'~'\<close> escaped. \<open>hexdigit\<close> is applied to numbers below 16
  only (a character code is below 256), and \<open>digits\<close> reads the digit table below 10.
\<close>

definition hexdigit :: "nat \<Rightarrow> char" where
  "hexdigit n = ''0123456789abcdef'' ! n"

definition escape_char :: "char \<Rightarrow> string" where
  "escape_char c =
     (if c = CHR 0x22 then [CHR 0x5C, CHR 0x22]
      else if c = CHR 0x5C then [CHR 0x5C, CHR 0x5C]
      else if c = CHR 0x0A then [CHR 0x5C, CHR ''n'']
      else if c = CHR 0x0D then [CHR 0x5C, CHR ''r'']
      else if c = CHR 0x09 then [CHR 0x5C, CHR ''t'']
      else if c = CHR 0x08 then [CHR 0x5C, CHR ''b'']
      else if c = CHR 0x0C then [CHR 0x5C, CHR ''f'']
      else if (of_char c :: nat) < 32 \<or> 126 < (of_char c :: nat)
        then [CHR 0x5C, CHR ''u'', CHR ''0'', CHR ''0'',
              hexdigit ((of_char c :: nat) div 16), hexdigit ((of_char c :: nat) mod 16)]
      else [c])"

definition json_str :: "string \<Rightarrow> string" where
  "json_str s = CHR 0x22 # concat (map escape_char s) @ [CHR 0x22]"

fun digits :: "nat \<Rightarrow> string" where
  "digits n = (if n < 10 then [''0123456789'' ! n] else digits (n div 10) @ [''0123456789'' ! (n mod 10)])"

declare digits.simps [simp del]

text \<open>
  \<^verbatim>\<open>int.__repr__\<close>, which the encoder calls on an int. CPython (3.11, and the security
  releases of 3.7 to 3.10) refuses to convert an int of more than 4300 digits, its default
  limit, and raises ValueError.
\<close>

definition int_repr :: "int \<Rightarrow> exn + string" where
  "int_repr i =
     (let ds = digits (nat \<bar>i\<bar>) in
      if 4300 < length ds
        then Inl (ValueError ''Exceeds the limit (4300 digits) for integer string conversion'')
      else Inr (if i < 0 then CHR ''-'' # ds else ds))"

text \<open>
  The encoder is a generator of chunks, and \<^verbatim>\<open>json.dump\<close> writes each chunk as it comes:
  a value that cannot be encoded raises after the text before it has been produced.
  The exception is TypeError for an object of a type the encoder does not know,
  ValueError for a reference to an enclosing container (\<^verbatim>\<open>Circular reference detected\<close>) and
  for an int that is too long, RecursionError for a nesting that is too deep.
  \<open>iterencode\<close> returns the text produced and the exception, if any.
  \<open>isep\<close> and \<open>ksep\<close> are the item and the key separator.
\<close>

fun iterencode :: "string \<Rightarrow> string \<Rightarrow> pyval \<Rightarrow> string \<times> exn option"
and iterencode_list :: "string \<Rightarrow> string \<Rightarrow> bool \<Rightarrow> pyval list \<Rightarrow> string \<times> exn option"
and iterencode_dict :: "string \<Rightarrow> string \<Rightarrow> bool \<Rightarrow> (string \<times> pyval) list \<Rightarrow> string \<times> exn option"
where
  "iterencode isep ksep (PStr s) = (json_str s, None)"
| "iterencode isep ksep (PInt i) =
     (case int_repr i of Inl x \<Rightarrow> ('''', Some x) | Inr ds \<Rightarrow> (ds, None))"
| "iterencode isep ksep (PBool b) = ((if b then ''true'' else ''false''), None)"
| "iterencode isep ksep PNone = (''null'', None)"
| "iterencode isep ksep (PList xs) =
     (if xs = [] then (''[]'', None)
      else case iterencode_list isep ksep True xs of
             (out, None) \<Rightarrow> (''['' @ out @ '']'', None)
           | (out, Some e) \<Rightarrow> (''['' @ out, Some e))"
| "iterencode isep ksep (PDict kvs) =
     (if kvs = [] then (''{}'', None)
      else case iterencode_dict isep ksep True kvs of
             (out, None) \<Rightarrow> (''{'' @ out @ ''}'', None)
           | (out, Some e) \<Rightarrow> (''{'' @ out, Some e))"
| "iterencode isep ksep (PObj t) = ('''', Some (TypeError t))"
| "iterencode isep ksep (PBytes b) = ('''', Some (TypeError ''bytes''))"
| "iterencode isep ksep PCycle = ('''', Some (ValueError ''Circular reference detected''))"
| "iterencode isep ksep (PDeep out) = (out, Some RecursionError)"
| "iterencode_list isep ksep first [] = ('''', None)"
| "iterencode_list isep ksep first (x # xs) =
     (let buf = (if first then '''' else isep) in
      case iterencode isep ksep x of
        (out, Some e) \<Rightarrow> (buf @ out, Some e)
      | (out, None) \<Rightarrow>
          (case iterencode_list isep ksep False xs of
             (rest, r) \<Rightarrow> (buf @ out @ rest, r)))"
| "iterencode_dict isep ksep first [] = ('''', None)"
| "iterencode_dict isep ksep first ((k, v) # kvs) =
     (let buf = (if first then '''' else isep) @ json_str k @ ksep in
      case iterencode isep ksep v of
        (out, Some e) \<Rightarrow> (buf @ out, Some e)
      | (out, None) \<Rightarrow>
          (case iterencode_dict isep ksep False kvs of
             (rest, r) \<Rightarrow> (buf @ out @ rest, r)))"

text \<open>\<^verbatim>\<open>json.dump(entry, f, separators=(",", ":"))\<close>: the text that reaches the file.\<close>

definition json_dump :: "entry \<Rightarrow> string \<times> exn option" where
  "json_dump e = iterencode '','' '':'' (PDict e)"

text \<open>\<^verbatim>\<open>json.dumps(entry)\<close>: the default separators, and all of the text or the exception.\<close>

definition json_dumps :: "entry \<Rightarrow> exn + string" where
  "json_dumps e =
     (case iterencode '', '' '': '' (PDict e) of
        (out, None) \<Rightarrow> Inr out
      | (out, Some x) \<Rightarrow> Inl x)"

subsection \<open>The plugin's state and the object store\<close>

text \<open>
  What the plugin prints, by content (the formatting of \<^verbatim>\<open>repr\<close> and \<^verbatim>\<open>str\<close> is not
  modelled), and what it does to the outside: the calls of the botocore client and the
  lines printed, in the order they happen.
\<close>

datatype logline =
    AlreadyUploaded string
  | SomebodyElseUploaded string
  | Uploading string pyval
  | CantSerialize entry
  | ErrorText exn

datatype event =
    HeadObject string string
  | PutObject string string string string
  | Print logline

text \<open>
  \<open>bucket\<close> and \<open>seen\<close> are the attributes of \<^verbatim>\<open>self\<close>; \<open>fs\<close> is the local file system
  (path to content); \<open>trace\<close> is the list of events so far.
\<close>

record sink =
  bucket :: string
  seen :: "string set"
  fs :: "string \<rightharpoonup> string"
  trace :: "event list"

text \<open>
  The botocore client is a parameter: \<open>head_object c b k\<close> is the answer of the store to
  \<^verbatim>\<open>head_object(Bucket=b, Key=k)\<close>, an exception (\<open>ClientError code\<close> carries
  \<^verbatim>\<open>e.response["Error"]["Code"]\<close>) or a normal return; \<open>put_object c b k body ctype\<close>
  likewise.
\<close>

record client =
  head_object :: "string \<Rightarrow> string \<Rightarrow> exn + unit"
  put_object :: "string \<Rightarrow> string \<Rightarrow> string \<Rightarrow> string \<Rightarrow> exn + unit"

text \<open>
  \<^verbatim>\<open>open(filename, "rb")\<close> followed by \<^verbatim>\<open>fp.read()\<close>, and \<^verbatim>\<open>os.unlink(filename)\<close>.
  A str and a bytes object are paths. An int (a bool is an int) is taken by \<^verbatim>\<open>open\<close> as
  a file descriptor: no descriptor of the process is modelled as a readable file, so
  \<^verbatim>\<open>open\<close> raises OSError; \<^verbatim>\<open>os.unlink\<close> takes no descriptor. Every other value raises
  TypeError.
\<close>

definition open_rb :: "(string \<rightharpoonup> string) \<Rightarrow> pyval \<Rightarrow> exn + string" where
  "open_rb files filename =
     (case filename of
        PStr p \<Rightarrow> (case files p of None \<Rightarrow> Inl (FileNotFoundError p) | Some body \<Rightarrow> Inr body)
      | PBytes p \<Rightarrow> (case files p of None \<Rightarrow> Inl (FileNotFoundError p) | Some body \<Rightarrow> Inr body)
      | PInt fd \<Rightarrow> Inl (OSError ''Bad file descriptor'')
      | PBool fd \<Rightarrow> Inl (OSError ''Bad file descriptor'')
      | _ \<Rightarrow> Inl (TypeError ''open''))"

definition unlink :: "(string \<rightharpoonup> string) \<Rightarrow> pyval \<Rightarrow> exn + (string \<rightharpoonup> string)" where
  "unlink files filename =
     (case filename of
        PStr p \<Rightarrow> (case files p of None \<Rightarrow> Inl (FileNotFoundError p) | Some body \<Rightarrow> Inr (files(p := None)))
      | PBytes p \<Rightarrow> (case files p of None \<Rightarrow> Inl (FileNotFoundError p) | Some body \<Rightarrow> Inr (files(p := None)))
      | _ \<Rightarrow> Inl (TypeError ''unlink''))"

definition emit :: "event \<Rightarrow> sink \<Rightarrow> sink" where
  "emit ev st = st\<lparr>trace := trace st @ [ev]\<rparr>"

subsection \<open>start, stop\<close>

text \<open>
  \<^verbatim>\<open>start\<close> reads the bucket from the configuration and sets \<^verbatim>\<open>self.seen = set()\<close>;
  the session and the client it builds are the \<open>client\<close> parameter of the other
  operations. \<^verbatim>\<open>stop\<close> is \<^verbatim>\<open>pass\<close>.
\<close>

definition start :: "string \<Rightarrow> (string \<rightharpoonup> string) \<Rightarrow> sink" where
  "start cfg_bucket files = \<lparr>bucket = cfg_bucket, seen = {}, fs = files, trace = []\<rparr>"

definition stop :: "sink \<Rightarrow> sink" where
  "stop st = st"

subsection \<open>The existence probe and upload\<close>

text \<open>
  \<open>object_exists_remote\<close> is \<^verbatim>\<open>Output._object_exists_remote\<close>: one call of \<^verbatim>\<open>head_object\<close>;
  a ClientError with code 404 is the answer \<^verbatim>\<open>False\<close>, every other exception is raised
  again, a normal return is the answer \<^verbatim>\<open>True\<close>.

  \<open>upload\<close> is \<^verbatim>\<open>Output.upload\<close>, in the order of the source: the test of \<^verbatim>\<open>self.seen\<close>,
  the probe, the line printed, \<^verbatim>\<open>open\<close> and \<^verbatim>\<open>read\<close>, \<^verbatim>\<open>put_object\<close>, \<^verbatim>\<open>os.unlink\<close> and
  \<^verbatim>\<open>self.seen.add\<close>. An exception at any step ends the call with the state reached so far.
\<close>

definition object_exists_remote :: "client \<Rightarrow> sink \<Rightarrow> string \<Rightarrow> (exn + bool) \<times> sink" where
  "object_exists_remote c st shasum =
     (let st1 = emit (HeadObject (bucket st) shasum) st in
      case head_object c (bucket st) shasum of
        Inl (ClientError code) \<Rightarrow>
          if code = ''404'' then (Inr False, st1) else (Inl (ClientError code), st1)
      | Inl e \<Rightarrow> (Inl e, st1)
      | Inr u \<Rightarrow> (Inr True, st1))"

definition upload :: "client \<Rightarrow> sink \<Rightarrow> string \<Rightarrow> pyval \<Rightarrow> (exn + unit) \<times> sink" where
  "upload c st shasum filename =
     (if shasum \<in> seen st then (Inr (), emit (Print (AlreadyUploaded shasum)) st)
      else
        case object_exists_remote c st shasum of
          (Inl e, st1) \<Rightarrow> (Inl e, st1)
        | (Inr True, st1) \<Rightarrow>
            (Inr (), (emit (Print (SomebodyElseUploaded shasum)) st1)\<lparr>seen := insert shasum (seen st1)\<rparr>)
        | (Inr False, st1) \<Rightarrow>
            (let st2 = emit (Print (Uploading shasum filename)) st1 in
             case open_rb (fs st2) filename of
               Inl e \<Rightarrow> (Inl e, st2)
             | Inr body \<Rightarrow>
                 (let st3 = emit (PutObject (bucket st2) shasum body ''application/octet-stream'') st2 in
                  case put_object c (bucket st2) shasum body ''application/octet-stream'' of
                    Inl e \<Rightarrow> (Inl e, st3)
                  | Inr u \<Rightarrow>
                      (case unlink (fs st3) filename of
                         Inl e \<Rightarrow> (Inl e, st3)
                       | Inr files \<Rightarrow> (Inr (), st3\<lparr>fs := files, seen := insert shasum (seen st3)\<rparr>)))))"

subsection \<open>write\<close>

text \<open>
  The loop \<^verbatim>\<open>for i in list(entry.keys())\<close> that removes the legacy keys of twisted 15
  from the record itself.
\<close>

definition startswith :: "string \<Rightarrow> string \<Rightarrow> bool" where
  "startswith s p = (take (length p) s = p)"

definition legacy_key :: "string \<Rightarrow> bool" where
  "legacy_key i = (startswith i ''log_'' \<or> i = ''time'' \<or> i = ''system'')"

definition del_key :: "string \<Rightarrow> entry \<Rightarrow> entry" where
  "del_key i e = filter (\<lambda>kv. fst kv \<noteq> i) e"

fun strip_loop :: "string list \<Rightarrow> entry \<Rightarrow> entry" where
  "strip_loop [] e = e"
| "strip_loop (i # ks) e = strip_loop ks (if legacy_key i then del_key i e else e)"

definition strip_legacy :: "entry \<Rightarrow> entry" where
  "strip_legacy e = strip_loop (map fst e) e"

text \<open>
  The arguments of the call \<^verbatim>\<open>self.upload(prefix + entry["shasum"], entry["outfile"])\<close>,
  evaluated left to right.
\<close>

definition artifact_args :: "string \<Rightarrow> entry \<Rightarrow> exn + (string \<times> pyval)" where
  "artifact_args pre e =
     (case getitem e ''shasum'' of
        Inl x \<Rightarrow> Inl x
      | Inr h \<Rightarrow>
          (case str_add pre h of
             Inl x \<Rightarrow> Inl x
           | Inr key \<Rightarrow>
               (case getitem e ''outfile'' of
                  Inl x \<Rightarrow> Inl x
                | Inr f \<Rightarrow> Inr (key, f))))"

text \<open>
  The clause \<^verbatim>\<open>except TypeError as te\<close> around the generic branch: a TypeError is caught,
  two lines are printed and \<^verbatim>\<open>write\<close> returns; any other exception leaves \<^verbatim>\<open>write\<close>.
\<close>

definition cant_serialize :: "entry \<Rightarrow> exn \<Rightarrow> sink \<Rightarrow> sink" where
  "cant_serialize e te st = emit (Print (ErrorText te)) (emit (Print (CantSerialize e)) st)"

definition except_TypeError :: "entry \<Rightarrow> exn \<Rightarrow> sink \<Rightarrow> (exn + unit) \<times> entry \<times> sink" where
  "except_TypeError e x st =
     (if is_TypeError x then (Inr (), e, cant_serialize e x st) else (Inl x, e, st))"

text \<open>
  \<open>write_entry\<close> is \<^verbatim>\<open>Output.write\<close>. Its parameters beyond the record: \<open>hexdigest\<close>, the
  SHA-256 hex digest of a byte string (\<^verbatim>\<open>hashlib.sha256\<close>, \<^verbatim>\<open>update\<close>, \<^verbatim>\<open>hexdigest\<close>; the
  encoder's output is ASCII, so its UTF-8 encoding is the text itself), and \<open>tfname\<close>, the path that
  \<^verbatim>\<open>tempfile.mkstemp\<close> returns. It returns the outcome of the call, the record as the
  caller finds it afterwards (the dictionary is mutated in place, also when \<^verbatim>\<open>write\<close>
  raises later) and the new state.
  The Deferred that \<^verbatim>\<open>upload\<close> returns is dropped by \<^verbatim>\<open>write\<close>: a failure of the upload is
  no exception of \<^verbatim>\<open>write\<close>.
\<close>

definition write_entry ::
  "(string \<Rightarrow> string) \<Rightarrow> string \<Rightarrow> client \<Rightarrow> sink \<Rightarrow> entry \<Rightarrow> (exn + unit) \<times> entry \<times> sink" where
  "write_entry hexdigest tfname c st e =
     (case getitem e ''eventid'' of
        Inl x \<Rightarrow> (Inl x, e, st)
      | Inr evid \<Rightarrow>
          if evid = PStr ''cowrie.session.file_download'' then
            (case artifact_args ''cowrie/downloads/'' e of
               Inl x \<Rightarrow> (Inl x, e, st)
             | Inr (key, f) \<Rightarrow> (Inr (), e, snd (upload c st key f)))
          else if evid = PStr ''cowrie.session.file_upload'' then
            (case artifact_args ''cowrie/uploads/'' e of
               Inl x \<Rightarrow> (Inl x, e, st)
             | Inr (key, f) \<Rightarrow> (Inr (), e, snd (upload c st key f)))
          else
            (let e1 = strip_legacy e;
                 st1 = st\<lparr>fs := (fs st)(tfname \<mapsto> [])\<rparr>
             in
             case json_dump e1 of
               (out, Some x) \<Rightarrow>
                 except_TypeError e1 x (st1\<lparr>fs := (fs st1)(tfname \<mapsto> out)\<rparr>)
             | (out, None) \<Rightarrow>
                 (let st2 = st1\<lparr>fs := (fs st1)(tfname \<mapsto> out @ [CHR 0x0A])\<rparr> in
                  case json_dumps e1 of
                    Inl x \<Rightarrow> except_TypeError e1 x st2
                  | Inr text \<Rightarrow>
                      (case map_of e1 ''session'' of
                         None \<Rightarrow> (Inr (), e1, st2)
                       | Some s \<Rightarrow>
                           if truthy s then
                             (case str_add ''cowrie/events/'' s of
                                Inl x \<Rightarrow> except_TypeError e1 x st2
                              | Inr k \<Rightarrow>
                                  (Inr (), e1,
                                   snd (upload c st2 (k @ ''-'' @ hexdigest text) (PStr tfname))))
                           else (Inr (), e1, st2)))))"

subsection \<open>Stores and digests for concrete runs\<close>

text \<open>
  A store that answers every probe with \<open>h\<close> and every put with \<open>p\<close>, and two
  stand-ins for the digest: one that returns a given hex string, one that returns the
  bytes it was given, so that what was hashed can be read off the key.
\<close>

definition store :: "exn + unit \<Rightarrow> exn + unit \<Rightarrow> client" where
  "store h p = \<lparr>head_object = (\<lambda>b k. h), put_object = (\<lambda>b k body ctype. p)\<rparr>"

definition fixed_digest :: "string \<Rightarrow> string \<Rightarrow> string" where
  "fixed_digest d bytes = d"

definition echo_digest :: "string \<Rightarrow> string" where
  "echo_digest bytes = bytes"

section \<open>Properties\<close>

subsection \<open>The loop that strips the legacy keys\<close>

text \<open>
  The loop keeps the order of the record and removes exactly the legacy keys.
\<close>

lemma strip_loop_filter:
  "strip_loop ks e = filter (\<lambda>kv. \<not> (legacy_key (fst kv) \<and> fst kv \<in> set ks)) e"
proof (induction ks arbitrary: e)
  case Nil
  then show ?case by simp
next
  case (Cons i ks)
  have "filter (\<lambda>kv. \<not> (legacy_key (fst kv) \<and> fst kv \<in> set ks)) (del_key i e)
      = filter (\<lambda>kv. \<not> (legacy_key (fst kv) \<and> fst kv \<in> set ks) \<and> fst kv \<noteq> i) e"
    by (simp add: del_key_def conj_commute)
  also have "\<dots> = filter (\<lambda>kv. \<not> (legacy_key (fst kv) \<and> fst kv \<in> set (i # ks))) e" if "legacy_key i"
    using that by (intro filter_cong refl) auto
  finally have a: "legacy_key i \<Longrightarrow> filter (\<lambda>kv. \<not> (legacy_key (fst kv) \<and> fst kv \<in> set ks)) (del_key i e)
     = filter (\<lambda>kv. \<not> (legacy_key (fst kv) \<and> fst kv \<in> set (i # ks))) e" .
  have b: "\<not> legacy_key i \<Longrightarrow> filter (\<lambda>kv. \<not> (legacy_key (fst kv) \<and> fst kv \<in> set ks)) e
     = filter (\<lambda>kv. \<not> (legacy_key (fst kv) \<and> fst kv \<in> set (i # ks))) e"
    by (intro filter_cong refl) auto
  show ?case
  proof (cases "legacy_key i")
    case True
    then show ?thesis using a by (simp add: Cons.IH)
  next
    case False
    then show ?thesis using b by (simp add: Cons.IH)
  qed
qed

lemma strip_legacy_filter: "strip_legacy e = filter (\<lambda>kv. \<not> legacy_key (fst kv)) e"
  unfolding strip_legacy_def strip_loop_filter
  by (intro filter_cong refl) auto

lemma map_of_filter_key:
  "map_of (filter (\<lambda>kv. P (fst kv)) e) k = (if P k then map_of e k else None)"
  by (induction e) auto

lemma map_of_strip_legacy:
  "map_of (strip_legacy e) k = (if legacy_key k then None else map_of e k)"
  unfolding strip_legacy_filter
  using map_of_filter_key[of "\<lambda>k. \<not> legacy_key k" e k] by simp

lemma legacy_key_iff:
  "legacy_key k = (take 4 k = ''log_'' \<or> k = ''time'' \<or> k = ''system'')"
proof -
  have "length ''log_'' = (4::nat)" by simp
  then show ?thesis
    unfolding legacy_key_def startswith_def by (simp only:)
qed

lemma session_not_legacy: "\<not> legacy_key ''session''"
  by (simp add: legacy_key_def startswith_def)

lemma eventid_not_legacy: "\<not> legacy_key ''eventid''"
  by (simp add: legacy_key_def startswith_def)

lemma strip_legacy_idem: "strip_legacy (strip_legacy e) = strip_legacy e"
  by (simp add: strip_legacy_filter)

subsection \<open>The encoder fails independently of the separators\<close>

text \<open>
  \<^verbatim>\<open>json.dump\<close> with the compact separators and \<^verbatim>\<open>json.dumps\<close> with the default ones raise
  on the same records, with the same exception.
\<close>

lemma iterencode_fail_indep:
  "snd (iterencode a b v) = snd (iterencode c d v)"
  "snd (iterencode_list a b f xs) = snd (iterencode_list c d f' xs)"
  "snd (iterencode_dict a b f kvs) = snd (iterencode_dict c d f' kvs)"
proof (induction a b v and a b f xs and a b f kvs arbitrary: and f' and f'
       rule: iterencode_iterencode_list_iterencode_dict.induct)
  case (5 isep ksep xs)
  show ?case
  proof (cases "xs = []")
    case True
    then show ?thesis by simp
  next
    case False
    from 5[OF False, of True] False show ?thesis
      by (auto split: prod.splits option.splits)
  qed
next
  case (6 isep ksep kvs)
  show ?case
  proof (cases "kvs = []")
    case True
    then show ?thesis by simp
  next
    case False
    from 6[OF False, of True] False show ?thesis
      by (auto split: prod.splits option.splits)
  qed
next
  case (12 isep ksep first x xs)
  have hd_eq: "snd (iterencode isep ksep x) = snd (iterencode c d x)"
    by (rule 12(1)[OF refl])
  obtain out r where enc: "iterencode isep ksep x = (out, r)"
    by (cases "iterencode isep ksep x")
  obtain out' where enc': "iterencode c d x = (out', r)"
    using hd_eq enc by (cases "iterencode c d x") simp
  show ?case
  proof (cases r)
    case None
    have "snd (iterencode_list isep ksep False xs) = snd (iterencode_list c d False xs)"
      using 12(2)[of _ out r False] enc None by simp
    then show ?thesis
      using enc enc' None by (auto simp: Let_def split: prod.splits)
  next
    case (Some e)
    then show ?thesis
      using enc enc' by (simp add: Let_def)
  qed
next
  case (14 isep ksep first k v kvs)
  have hd_eq: "snd (iterencode isep ksep v) = snd (iterencode c d v)"
    by (rule 14(1)[OF refl])
  obtain out r where enc: "iterencode isep ksep v = (out, r)"
    by (cases "iterencode isep ksep v")
  obtain out' where enc': "iterencode c d v = (out', r)"
    using hd_eq enc by (cases "iterencode c d v") simp
  show ?case
  proof (cases r)
    case None
    have "snd (iterencode_dict isep ksep False kvs) = snd (iterencode_dict c d False kvs)"
      using 14(2)[of _ out r False] enc None by simp
    then show ?thesis
      using enc enc' None by (auto simp: Let_def split: prod.splits)
  next
    case (Some e)
    then show ?thesis
      using enc enc' by (simp add: Let_def)
  qed
qed simp_all

lemma json_dumps_json_dump:
  "json_dumps e = (case snd (json_dump e) of None \<Rightarrow> Inr (fst (iterencode '', '' '': '' (PDict e))) | Some te \<Rightarrow> Inl te)"
proof -
  obtain o1 r1 where a: "iterencode '', '' '': '' (PDict e) = (o1, r1)"
    by (cases "iterencode '', '' '': '' (PDict e)")
  obtain o2 r2 where b: "iterencode '','' '':'' (PDict e) = (o2, r2)"
    by (cases "iterencode '','' '':'' (PDict e)")
  have "r1 = r2"
    using iterencode_fail_indep(1)[of "'', ''" "'': ''" "PDict e" "'',''" "'':''"] a b
    by (simp del: iterencode.simps)
  then show ?thesis
    using a b
    by (simp add: json_dumps_def json_dump_def del: iterencode.simps split: option.splits)
qed

subsection \<open>upload and the set of seen keys\<close>

text \<open>
  A key in \<open>seen\<close> takes the fast path; a call that returns normally leaves its key in
  \<open>seen\<close>; every call leaves an event that names its key (a line printed or a probe), so
  a run whose trace did not grow made no call of \<open>upload\<close>.
\<close>

lemma upload_seen_fast_path:
  "k \<in> seen st \<Longrightarrow> upload c st k f = (Inr (), st\<lparr>trace := trace st @ [Print (AlreadyUploaded k)]\<rparr>)"
  by (simp add: upload_def emit_def)

lemma upload_success_seen:
  "fst (upload c st k f) = Inr () \<Longrightarrow> k \<in> seen (snd (upload c st k f))"
  by (auto simp: upload_def object_exists_remote_def emit_def Let_def
      split: if_splits sum.splits exn.splits bool.splits)

lemma upload_emits:
  "length (trace st) < length (trace (snd (upload c st k f)))"
  by (auto simp: upload_def object_exists_remote_def emit_def Let_def
      split: if_splits sum.splits exn.splits bool.splits)

lemma seen_upload:
  "seen (snd (upload c st k f)) =
     (if k \<notin> seen st \<and>
         (case head_object c (bucket st) k of
            Inr u \<Rightarrow> True
          | Inl (ClientError code) \<Rightarrow>
              code = ''404'' \<and>
              (case open_rb (fs st) f of
                 Inl x \<Rightarrow> False
               | Inr body \<Rightarrow>
                   (case put_object c (bucket st) k body ''application/octet-stream'' of
                      Inl x \<Rightarrow> False
                    | Inr u \<Rightarrow> True))
          | Inl x \<Rightarrow> False)
      then insert k (seen st) else seen st)"
  by (auto simp: upload_def object_exists_remote_def emit_def Let_def open_rb_def unlink_def
      split: sum.splits exn.splits pyval.splits option.splits)

subsection \<open>write on a generic record\<close>

text \<open>
  \<open>write_entry\<close> touches \<open>seen\<close> through \<open>upload\<close> only; on a record that is neither a
  download nor an upload it behaves as on the stripped record, and with a non-empty session
  string and an encodable record it hands the event key and the temporary file to
  \<open>upload\<close>.
\<close>

lemma write_entry_seen:
  "seen (snd (snd (write_entry hexdigest tfname c st e))) = seen st \<or>
   (\<exists>k f st1. seen st1 = seen st \<and>
      snd (snd (write_entry hexdigest tfname c st e)) = snd (upload c st1 k f))"
proof (cases "getitem e ''eventid''")
  case (Inl x)
  then show ?thesis by (simp add: write_entry_def)
next
  case (Inr evid)
  show ?thesis
  proof (cases "evid = PStr ''cowrie.session.file_download''")
    case True
    show ?thesis
    proof (cases "artifact_args ''cowrie/downloads/'' e")
      case (Inl x)
      then show ?thesis using Inr True by (simp add: write_entry_def)
    next
      case r: (Inr kf)
      have "snd (snd (write_entry hexdigest tfname c st e)) = snd (upload c st (fst kf) (snd kf))"
        using Inr True r by (simp add: write_entry_def split: prod.splits)
      then show ?thesis by blast
    qed
  next
    case ndl: False
    show ?thesis
    proof (cases "evid = PStr ''cowrie.session.file_upload''")
      case True
      show ?thesis
      proof (cases "artifact_args ''cowrie/uploads/'' e")
        case (Inl x)
        then show ?thesis using Inr True by (simp add: write_entry_def)
      next
        case r: (Inr kf)
        have "snd (snd (write_entry hexdigest tfname c st e)) = snd (upload c st (fst kf) (snd kf))"
          using Inr True r by (simp add: write_entry_def split: prod.splits)
        then show ?thesis by blast
      qed
    next
      case False
      let ?st2 = "st\<lparr>fs := (fs st)(tfname \<mapsto> fst (json_dump (strip_legacy e)) @ [CHR 0x0A])\<rparr>"
      have "seen (snd (snd (write_entry hexdigest tfname c st e))) = seen st \<or>
            (\<exists>k. snd (snd (write_entry hexdigest tfname c st e)) = snd (upload c ?st2 k (PStr tfname)))"
        using Inr ndl False
        by (auto simp: write_entry_def Let_def except_TypeError_def cant_serialize_def emit_def
            split: prod.splits option.splits sum.splits)
      moreover have "seen ?st2 = seen st" by simp
      ultimately show ?thesis by blast
    qed
  qed
qed

lemma write_entry_strip_legacy:
  assumes "map_of e ''eventid'' = Some evid"
    and "evid \<noteq> PStr ''cowrie.session.file_download''"
    and "evid \<noteq> PStr ''cowrie.session.file_upload''"
  shows "write_entry hexdigest tfname c st e = write_entry hexdigest tfname c st (strip_legacy e)"
proof -
  have ev: "map_of (strip_legacy e) ''eventid'' = Some evid"
    using assms(1) by (simp add: map_of_strip_legacy eventid_not_legacy)
  show ?thesis
    using assms ev by (simp add: write_entry_def getitem_def strip_legacy_idem)
qed

lemma write_entry_event:
  assumes "map_of e ''eventid'' = Some evid"
    and "evid \<noteq> PStr ''cowrie.session.file_download''"
    and "evid \<noteq> PStr ''cowrie.session.file_upload''"
    and "map_of e ''session'' = Some (PStr s)"
    and "s \<noteq> []"
    and "json_dumps (strip_legacy e) = Inr d_input"
  shows "write_entry hexdigest tfname c st e =
          (Inr (), strip_legacy e,
           snd (upload c
                 (st\<lparr>fs := (fs st)(tfname \<mapsto> fst (json_dump (strip_legacy e)) @ [CHR 0x0A])\<rparr>)
                 (''cowrie/events/'' @ s @ ''-'' @ hexdigest d_input) (PStr tfname)))"
proof -
  have ok: "snd (json_dump (strip_legacy e)) = None"
    using assms(6) by (simp add: json_dumps_json_dump split: option.splits)
  have sess: "map_of (strip_legacy e) ''session'' = Some (PStr s)"
    using assms(4) by (simp add: map_of_strip_legacy session_not_legacy)
  obtain out where out: "json_dump (strip_legacy e) = (out, None)"
    using ok by (cases "json_dump (strip_legacy e)") simp
  show ?thesis
    using assms sess out
    by (simp add: write_entry_def getitem_def Let_def str_add_def)
qed

section \<open>The claims of the specification\<close>

subsection \<open>C1: the key namespace\<close>

text \<open>
  Claim C1 as stated gives the keys \<^verbatim>\<open>downloads/\<close>\<open>h\<close>, \<^verbatim>\<open>uploads/\<close>\<open>h\<close> and
  \<^verbatim>\<open>events/\<close>\<open>s\<close>\<^verbatim>\<open>-\<close>\<open>d\<close>. The download record with hash \<^verbatim>\<open>aaaa\<close> and file \<^verbatim>\<open>/tmp/x\<close>, on a
  store that does not hold the object: the key probed and stored is
  \<^verbatim>\<open>cowrie/downloads/aaaa\<close>, and the run is not that of \<open>upload\<close> with the key
  \<^verbatim>\<open>downloads/aaaa\<close>.
\<close>

theorem write_key_namespace_counterexample:
  "trace (snd (snd (write_entry (fixed_digest ''deadbeef'') ''/tmp/t''
       (store (Inl (ClientError ''404'')) (Inr ()))
       (start ''honeypot'' [''/tmp/x'' \<mapsto> ''MZ''])
       [(''eventid'', PStr ''cowrie.session.file_download''), (''shasum'', PStr ''aaaa''),
        (''outfile'', PStr ''/tmp/x'')]))) =
     [HeadObject ''honeypot'' ''cowrie/downloads/aaaa'',
      Print (Uploading ''cowrie/downloads/aaaa'' (PStr ''/tmp/x'')),
      PutObject ''honeypot'' ''cowrie/downloads/aaaa'' ''MZ'' ''application/octet-stream''] \<and>
   write_entry (fixed_digest ''deadbeef'') ''/tmp/t''
       (store (Inl (ClientError ''404'')) (Inr ()))
       (start ''honeypot'' [''/tmp/x'' \<mapsto> ''MZ''])
       [(''eventid'', PStr ''cowrie.session.file_download''), (''shasum'', PStr ''aaaa''),
        (''outfile'', PStr ''/tmp/x'')] \<noteq>
     (Inr (),
      [(''eventid'', PStr ''cowrie.session.file_download''), (''shasum'', PStr ''aaaa''),
        (''outfile'', PStr ''/tmp/x'')],
      snd (upload (store (Inl (ClientError ''404'')) (Inr ()))
            (start ''honeypot'' [''/tmp/x'' \<mapsto> ''MZ'']) ''downloads/aaaa'' (PStr ''/tmp/x'')))"
  by (simp add: write_entry_def getitem_def artifact_args_def str_add_def upload_def
      object_exists_remote_def emit_def open_rb_def unlink_def start_def store_def)

text \<open>
  Claim C1, as the code has it. Every key starts with \<^verbatim>\<open>cowrie/\<close>: a file-download record
  with content hash \<open>h\<close> hands the key \<^verbatim>\<open>cowrie/downloads/\<close>\<open>h\<close> and its \<^verbatim>\<open>outfile\<close> to
  \<open>upload\<close>, a file-upload record the key \<^verbatim>\<open>cowrie/uploads/\<close>\<open>h\<close>, and a generic record that
  can be encoded, with a non-empty session string \<open>s\<close>, the key
  \<^verbatim>\<open>cowrie/events/\<close>\<open>s\<close>\<^verbatim>\<open>-\<close>\<open>d\<close> and the temporary file, where \<open>d\<close> is the digest of
  \<open>d_input\<close>, the text \<^verbatim>\<open>json.dumps\<close> gives for the record.
\<close>

theorem write_key_namespace:
  "(map_of e ''eventid'' = Some (PStr ''cowrie.session.file_download'') \<and>
    map_of e ''shasum'' = Some (PStr h) \<and> map_of e ''outfile'' = Some f \<longrightarrow>
      write_entry hexdigest tfname c st e =
        (Inr (), e, snd (upload c st (''cowrie/downloads/'' @ h) f))) \<and>
   (map_of e ''eventid'' = Some (PStr ''cowrie.session.file_upload'') \<and>
    map_of e ''shasum'' = Some (PStr h) \<and> map_of e ''outfile'' = Some f \<longrightarrow>
      write_entry hexdigest tfname c st e =
        (Inr (), e, snd (upload c st (''cowrie/uploads/'' @ h) f))) \<and>
   (map_of e ''eventid'' = Some evid \<and> evid \<noteq> PStr ''cowrie.session.file_download'' \<and>
    evid \<noteq> PStr ''cowrie.session.file_upload'' \<and>
    map_of e ''session'' = Some (PStr s) \<and> s \<noteq> [] \<and>
    json_dumps (strip_legacy e) = Inr d_input \<longrightarrow>
      write_entry hexdigest tfname c st e =
        (Inr (), strip_legacy e,
         snd (upload c
               (st\<lparr>fs := (fs st)(tfname \<mapsto> fst (json_dump (strip_legacy e)) @ [CHR 0x0A])\<rparr>)
               (''cowrie/events/'' @ s @ ''-'' @ hexdigest d_input) (PStr tfname))))"
proof (intro conjI impI)
  assume "map_of e ''eventid'' = Some (PStr ''cowrie.session.file_download'') \<and>
    map_of e ''shasum'' = Some (PStr h) \<and> map_of e ''outfile'' = Some f"
  then show "write_entry hexdigest tfname c st e =
        (Inr (), e, snd (upload c st (''cowrie/downloads/'' @ h) f))"
    by (simp add: write_entry_def getitem_def artifact_args_def str_add_def)
next
  assume "map_of e ''eventid'' = Some (PStr ''cowrie.session.file_upload'') \<and>
    map_of e ''shasum'' = Some (PStr h) \<and> map_of e ''outfile'' = Some f"
  then show "write_entry hexdigest tfname c st e =
        (Inr (), e, snd (upload c st (''cowrie/uploads/'' @ h) f))"
    by (simp add: write_entry_def getitem_def artifact_args_def str_add_def)
next
  assume a: "map_of e ''eventid'' = Some evid \<and> evid \<noteq> PStr ''cowrie.session.file_download'' \<and>
    evid \<noteq> PStr ''cowrie.session.file_upload'' \<and>
    map_of e ''session'' = Some (PStr s) \<and> s \<noteq> [] \<and>
    json_dumps (strip_legacy e) = Inr d_input"
  then show "write_entry hexdigest tfname c st e =
        (Inr (), strip_legacy e,
         snd (upload c
               (st\<lparr>fs := (fs st)(tfname \<mapsto> fst (json_dump (strip_legacy e)) @ [CHR 0x0A])\<rparr>)
               (''cowrie/events/'' @ s @ ''-'' @ hexdigest d_input) (PStr tfname)))"
    using write_entry_event [of e evid s d_input hexdigest tfname c st] by blast
qed

text \<open>
  The three kinds of record at concrete inputs.
\<close>

theorem write_key_namespace_witness:
  "(map_of [(''eventid'', PStr ''cowrie.session.file_download''), (''shasum'', PStr ''aaaa''),
            (''outfile'', PStr ''/tmp/x'')] ''eventid'' = Some (PStr ''cowrie.session.file_download'') \<and>
    write_entry (fixed_digest ''deadbeef'') ''/tmp/t'' (store (Inl (ClientError ''404'')) (Inr ()))
        (start ''honeypot'' [''/tmp/x'' \<mapsto> ''MZ''])
        [(''eventid'', PStr ''cowrie.session.file_download''), (''shasum'', PStr ''aaaa''),
         (''outfile'', PStr ''/tmp/x'')] =
      (Inr (),
       [(''eventid'', PStr ''cowrie.session.file_download''), (''shasum'', PStr ''aaaa''),
        (''outfile'', PStr ''/tmp/x'')],
       snd (upload (store (Inl (ClientError ''404'')) (Inr ()))
             (start ''honeypot'' [''/tmp/x'' \<mapsto> ''MZ'']) ''cowrie/downloads/aaaa'' (PStr ''/tmp/x'')))) \<and>
   (map_of [(''eventid'', PStr ''cowrie.session.file_upload''), (''shasum'', PStr ''bbbb''),
            (''outfile'', PStr ''/tmp/y'')] ''eventid'' = Some (PStr ''cowrie.session.file_upload'') \<and>
    write_entry (fixed_digest ''deadbeef'') ''/tmp/t'' (store (Inl (ClientError ''404'')) (Inr ()))
        (start ''honeypot'' [''/tmp/y'' \<mapsto> ''ELF''])
        [(''eventid'', PStr ''cowrie.session.file_upload''), (''shasum'', PStr ''bbbb''),
         (''outfile'', PStr ''/tmp/y'')] =
      (Inr (),
       [(''eventid'', PStr ''cowrie.session.file_upload''), (''shasum'', PStr ''bbbb''),
        (''outfile'', PStr ''/tmp/y'')],
       snd (upload (store (Inl (ClientError ''404'')) (Inr ()))
             (start ''honeypot'' [''/tmp/y'' \<mapsto> ''ELF'']) ''cowrie/uploads/bbbb'' (PStr ''/tmp/y'')))) \<and>
   (json_dumps (strip_legacy [(''eventid'', PStr ''cowrie.login.success''),
                              (''session'', PStr ''abc123''), (''time'', PInt 7)]) =
      Inr ''{\"eventid\": \"cowrie.login.success\", \"session\": \"abc123\"}'' \<and>
    write_entry (fixed_digest ''deadbeef'') ''/tmp/t'' (store (Inl (ClientError ''404'')) (Inr ()))
        (start ''honeypot'' Map.empty)
        [(''eventid'', PStr ''cowrie.login.success''), (''session'', PStr ''abc123''),
         (''time'', PInt 7)] =
      (Inr (),
       [(''eventid'', PStr ''cowrie.login.success''), (''session'', PStr ''abc123'')],
       snd (upload (store (Inl (ClientError ''404'')) (Inr ()))
             ((start ''honeypot'' Map.empty)
                \<lparr>fs := [''/tmp/t'' \<mapsto>
                   ''{\"eventid\":\"cowrie.login.success\",\"session\":\"abc123\"}'' @ [CHR 0x0A]]\<rparr>)
             ''cowrie/events/abc123-deadbeef'' (PStr ''/tmp/t''))))"
  using
    write_key_namespace [where e = "[(''eventid'', PStr ''cowrie.session.file_download''),
        (''shasum'', PStr ''aaaa''), (''outfile'', PStr ''/tmp/x'')]"
      and h = "''aaaa''" and f = "PStr ''/tmp/x''" and hexdigest = "fixed_digest ''deadbeef''"
      and tfname = "''/tmp/t''" and c = "store (Inl (ClientError ''404'')) (Inr ())"
      and st = "start ''honeypot'' [''/tmp/x'' \<mapsto> ''MZ'']" and evid = "PNone" and s = "''''"
      and d_input = "''''"]
    write_key_namespace [where e = "[(''eventid'', PStr ''cowrie.session.file_upload''),
        (''shasum'', PStr ''bbbb''), (''outfile'', PStr ''/tmp/y'')]"
      and h = "''bbbb''" and f = "PStr ''/tmp/y''" and hexdigest = "fixed_digest ''deadbeef''"
      and tfname = "''/tmp/t''" and c = "store (Inl (ClientError ''404'')) (Inr ())"
      and st = "start ''honeypot'' [''/tmp/y'' \<mapsto> ''ELF'']" and evid = "PNone" and s = "''''"
      and d_input = "''''"]
    write_key_namespace [where e = "[(''eventid'', PStr ''cowrie.login.success''),
        (''session'', PStr ''abc123''), (''time'', PInt 7)]"
      and h = "''''" and f = "PNone" and hexdigest = "fixed_digest ''deadbeef''"
      and tfname = "''/tmp/t''" and c = "store (Inl (ClientError ''404'')) (Inr ())"
      and st = "start ''honeypot'' Map.empty" and evid = "PStr ''cowrie.login.success''"
      and s = "''abc123''"
      and d_input = "''{\"eventid\": \"cowrie.login.success\", \"session\": \"abc123\"}''"]
  by (simp add: fixed_digest_def start_def
      json_dumps_def json_dump_def strip_legacy_def legacy_key_def startswith_def del_key_def
      json_str_def escape_char_def)

subsection \<open>C2: what is hashed\<close>

text \<open>
  Claim C2 as stated has the digest taken over the record before the legacy fields are
  removed. A record with a \<^verbatim>\<open>time\<close> field, with a digest that returns its input: the text
  of the whole record contains the field, the key that is probed carries the text of the
  stripped record, and the key the claim gives is not probed.
\<close>

theorem event_hash_over_unstripped_counterexample:
  "json_dumps [(''eventid'', PStr ''cowrie.login.success''), (''session'', PStr ''abc123''),
               (''time'', PInt 7)] =
     Inr ''{\"eventid\": \"cowrie.login.success\", \"session\": \"abc123\", \"time\": 7}'' \<and>
   trace (snd (snd (write_entry echo_digest ''/tmp/t''
       (store (Inl (ClientError ''403'')) (Inr ())) (start ''honeypot'' Map.empty)
       [(''eventid'', PStr ''cowrie.login.success''), (''session'', PStr ''abc123''),
        (''time'', PInt 7)]))) =
     [HeadObject ''honeypot''
        (''cowrie/events/abc123-'' @
           echo_digest ''{\"eventid\": \"cowrie.login.success\", \"session\": \"abc123\"}'')] \<and>
   HeadObject ''honeypot''
        (''cowrie/events/abc123-'' @
           echo_digest ''{\"eventid\": \"cowrie.login.success\", \"session\": \"abc123\", \"time\": 7}'')
     \<notin> set (trace (snd (snd (write_entry echo_digest ''/tmp/t''
       (store (Inl (ClientError ''403'')) (Inr ())) (start ''honeypot'' Map.empty)
       [(''eventid'', PStr ''cowrie.login.success''), (''session'', PStr ''abc123''),
        (''time'', PInt 7)]))))"
  by (simp add: write_entry_def getitem_def str_add_def upload_def
      object_exists_remote_def emit_def start_def store_def echo_digest_def
      json_dumps_def json_dump_def strip_legacy_def legacy_key_def startswith_def del_key_def
      json_str_def escape_char_def int_repr_def digits.simps)

text \<open>
  Claim C2, as the code has it. The loop removes the legacy fields from the record
  itself before anything is encoded, so the digest in the event key is taken over
  \<^verbatim>\<open>json.dumps\<close> of the stripped record: stripping affects the staged bytes and the digest
  alike, and \<open>write_entry\<close> on a generic record is \<open>write_entry\<close> on its stripped form.
\<close>

theorem event_hash_over_stripped_record:
  assumes "map_of e ''eventid'' = Some evid"
    and "evid \<noteq> PStr ''cowrie.session.file_download''"
    and "evid \<noteq> PStr ''cowrie.session.file_upload''"
    and "map_of e ''session'' = Some (PStr s)"
    and "s \<noteq> []"
    and "json_dumps (strip_legacy e) = Inr d_input"
  shows "write_entry hexdigest tfname c st e =
          (Inr (), strip_legacy e,
           snd (upload c
                 (st\<lparr>fs := (fs st)(tfname \<mapsto> fst (json_dump (strip_legacy e)) @ [CHR 0x0A])\<rparr>)
                 (''cowrie/events/'' @ s @ ''-'' @ hexdigest d_input) (PStr tfname))) \<and>
     write_entry hexdigest tfname c st e = write_entry hexdigest tfname c st (strip_legacy e)"
  using write_entry_event[OF assms] write_entry_strip_legacy[OF assms(1-3)]
  by (intro conjI)

text \<open>
  The same record, on a store that does not hold the object.
\<close>

theorem event_hash_over_stripped_record_witness:
  "strip_legacy [(''eventid'', PStr ''cowrie.login.success''), (''session'', PStr ''abc123''),
                 (''time'', PInt 7)] =
     [(''eventid'', PStr ''cowrie.login.success''), (''session'', PStr ''abc123'')] \<and>
   json_dumps [(''eventid'', PStr ''cowrie.login.success''), (''session'', PStr ''abc123'')] =
     Inr ''{\"eventid\": \"cowrie.login.success\", \"session\": \"abc123\"}'' \<and>
   write_entry echo_digest ''/tmp/t'' (store (Inl (ClientError ''404'')) (Inr ()))
       (start ''honeypot'' Map.empty)
       [(''eventid'', PStr ''cowrie.login.success''), (''session'', PStr ''abc123''),
        (''time'', PInt 7)] =
     (Inr (),
      [(''eventid'', PStr ''cowrie.login.success''), (''session'', PStr ''abc123'')],
      snd (upload (store (Inl (ClientError ''404'')) (Inr ()))
            ((start ''honeypot'' Map.empty)
               \<lparr>fs := [''/tmp/t'' \<mapsto>
                  ''{\"eventid\":\"cowrie.login.success\",\"session\":\"abc123\"}'' @ [CHR 0x0A]]\<rparr>)
            (''cowrie/events/abc123-'' @
               echo_digest ''{\"eventid\": \"cowrie.login.success\", \"session\": \"abc123\"}'')
            (PStr ''/tmp/t''))) \<and>
   write_entry echo_digest ''/tmp/t'' (store (Inl (ClientError ''404'')) (Inr ()))
       (start ''honeypot'' Map.empty)
       [(''eventid'', PStr ''cowrie.login.success''), (''session'', PStr ''abc123''),
        (''time'', PInt 7)] =
     write_entry echo_digest ''/tmp/t'' (store (Inl (ClientError ''404'')) (Inr ()))
       (start ''honeypot'' Map.empty)
       [(''eventid'', PStr ''cowrie.login.success''), (''session'', PStr ''abc123'')]"
  (is "?S \<and> ?D \<and> ?B \<and> ?A")
proof -
  let ?e = "[(''eventid'', PStr ''cowrie.login.success''), (''session'', PStr ''abc123''),
             (''time'', PInt 7)]"
  have s: ?S
    by (simp add: strip_legacy_def legacy_key_def startswith_def del_key_def)
  have d: ?D
    by (simp add: json_dumps_def json_str_def escape_char_def)
  have fl: "fst (json_dump [(''eventid'', PStr ''cowrie.login.success''),
                            (''session'', PStr ''abc123'')]) =
      ''{\"eventid\":\"cowrie.login.success\",\"session\":\"abc123\"}''"
    by (simp add: json_dump_def json_str_def escape_char_def)
  have h1: "map_of ?e ''eventid'' = Some (PStr ''cowrie.login.success'')" by simp
  have h2: "PStr ''cowrie.login.success'' \<noteq> PStr ''cowrie.session.file_download''" by simp
  have h3: "PStr ''cowrie.login.success'' \<noteq> PStr ''cowrie.session.file_upload''" by simp
  have h4: "map_of ?e ''session'' = Some (PStr ''abc123'')" by simp
  have h5: "''abc123'' \<noteq> []" by simp
  have h6: "json_dumps (strip_legacy ?e) =
      Inr ''{\"eventid\": \"cowrie.login.success\", \"session\": \"abc123\"}''"
    using d by (simp only: s)
  note th = event_hash_over_stripped_record [OF h1 h2 h3 h4 h5 h6, of echo_digest "''/tmp/t''"
      "store (Inl (ClientError ''404'')) (Inr ())" "start ''honeypot'' Map.empty"]
  have b: ?B
    using th [THEN conjunct1] by (simp only: s fl) (simp add: start_def)
  have a: ?A
    using th [THEN conjunct2] by (simp only: s)
  show ?thesis
    using s d b a by (intro conjI)
qed

subsection \<open>C3: the object is not in the store\<close>

text \<open>
  Claim C3. The key is not in \<open>seen\<close>, the probe raises the client error 404 and the
  staged file exists with content \<open>body\<close>. Then \<open>upload\<close> probes once and issues one put,
  with \<open>body\<close> and the content type \<^verbatim>\<open>application/octet-stream\<close>. When the put returns the
  file is removed and the key is added to \<open>seen\<close>; when it raises, the exception is the
  outcome, the file stays and the key is not added.
\<close>

theorem upload_not_found:
  assumes "shasum \<notin> seen st"
    and "head_object c (bucket st) shasum = Inl (ClientError ''404'')"
    and "fs st p = Some body"
  shows "upload c st shasum (PStr p) =
     (case put_object c (bucket st) shasum body ''application/octet-stream'' of
        Inl e \<Rightarrow>
          (Inl e,
           st\<lparr>trace := trace st @
              [HeadObject (bucket st) shasum, Print (Uploading shasum (PStr p)),
               PutObject (bucket st) shasum body ''application/octet-stream'']\<rparr>)
      | Inr u \<Rightarrow>
          (Inr (),
           st\<lparr>seen := insert shasum (seen st), fs := (fs st)(p := None),
              trace := trace st @
              [HeadObject (bucket st) shasum, Print (Uploading shasum (PStr p)),
               PutObject (bucket st) shasum body ''application/octet-stream'']\<rparr>))"
  using assms
  by (simp add: upload_def object_exists_remote_def emit_def open_rb_def unlink_def
      split: sum.splits)

text \<open>
  A fresh sink, the file \<^verbatim>\<open>/tmp/x\<close> and a store that takes the put.
\<close>

theorem upload_not_found_witness:
  "''cowrie/downloads/aaaa'' \<notin> seen (start ''honeypot'' [''/tmp/x'' \<mapsto> ''MZ'']) \<and>
   head_object (store (Inl (ClientError ''404'')) (Inr ())) ''honeypot'' ''cowrie/downloads/aaaa''
     = Inl (ClientError ''404'') \<and>
   fs (start ''honeypot'' [''/tmp/x'' \<mapsto> ''MZ'']) ''/tmp/x'' = Some ''MZ'' \<and>
   upload (store (Inl (ClientError ''404'')) (Inr ())) (start ''honeypot'' [''/tmp/x'' \<mapsto> ''MZ''])
       ''cowrie/downloads/aaaa'' (PStr ''/tmp/x'') =
     (Inr (),
      \<lparr>bucket = ''honeypot'', seen = {''cowrie/downloads/aaaa''},
       fs = [''/tmp/x'' \<mapsto> ''MZ''](''/tmp/x'' := None),
       trace = [HeadObject ''honeypot'' ''cowrie/downloads/aaaa'',
                Print (Uploading ''cowrie/downloads/aaaa'' (PStr ''/tmp/x'')),
                PutObject ''honeypot'' ''cowrie/downloads/aaaa'' ''MZ'' ''application/octet-stream'']\<rparr>)"
  using upload_not_found [of "''cowrie/downloads/aaaa''" "start ''honeypot'' [''/tmp/x'' \<mapsto> ''MZ'']"
      "store (Inl (ClientError ''404'')) (Inr ())" "''/tmp/x''" "''MZ''"]
  by (simp add: start_def store_def)

subsection \<open>C4: the probe fails\<close>

text \<open>
  Claim C4. The key is not in \<open>seen\<close> and the probe raises an exception other than the
  client error 404. Then that exception is the outcome of \<open>upload\<close>, the probe is the only
  event, and \<open>seen\<close> and the files are as before.
\<close>

theorem upload_probe_error:
  assumes "shasum \<notin> seen st"
    and "head_object c (bucket st) shasum = Inl e"
    and "e \<noteq> ClientError ''404''"
  shows "upload c st shasum filename =
     (Inl e, st\<lparr>trace := trace st @ [HeadObject (bucket st) shasum]\<rparr>)"
  using assms
  by (cases e) (simp_all add: upload_def object_exists_remote_def emit_def)

text \<open>
  The store denies access (403).
\<close>

theorem upload_probe_error_witness:
  "''cowrie/downloads/aaaa'' \<notin> seen (start ''honeypot'' [''/tmp/x'' \<mapsto> ''MZ'']) \<and>
   head_object (store (Inl (ClientError ''403'')) (Inr ())) ''honeypot'' ''cowrie/downloads/aaaa''
     = Inl (ClientError ''403'') \<and>
   ClientError ''403'' \<noteq> ClientError ''404'' \<and>
   upload (store (Inl (ClientError ''403'')) (Inr ())) (start ''honeypot'' [''/tmp/x'' \<mapsto> ''MZ''])
       ''cowrie/downloads/aaaa'' (PStr ''/tmp/x'') =
     (Inl (ClientError ''403''),
      \<lparr>bucket = ''honeypot'', seen = {}, fs = [''/tmp/x'' \<mapsto> ''MZ''],
       trace = [HeadObject ''honeypot'' ''cowrie/downloads/aaaa'']\<rparr>)"
  using upload_probe_error [of "''cowrie/downloads/aaaa''" "start ''honeypot'' [''/tmp/x'' \<mapsto> ''MZ'']"
      "store (Inl (ClientError ''403'')) (Inr ())" "ClientError ''403''" "PStr ''/tmp/x''"]
  by (simp add: start_def store_def)

subsection \<open>C5: the same key twice\<close>

text \<open>
  Claim C5. Whenever a first call of \<open>upload\<close> returns normally, a second call with the
  same key, on any store and with any file, prints that the key was already uploaded and
  returns: it makes no probe and no put. When the first call goes through the probe (the key
  is new, the store answers 404, the staged file exists) and its put returns, the two calls
  together made one probe and one put.
\<close>

theorem upload_twice:
  "(fst (upload c1 st shasum f1) = Inr () \<longrightarrow>
      upload c2 (snd (upload c1 st shasum f1)) shasum f2 =
        (Inr (),
         (snd (upload c1 st shasum f1))
           \<lparr>trace := trace (snd (upload c1 st shasum f1)) @ [Print (AlreadyUploaded shasum)]\<rparr>)) \<and>
   (shasum \<notin> seen st \<and>
    head_object c1 (bucket st) shasum = Inl (ClientError ''404'') \<and>
    fs st p = Some body \<and>
    put_object c1 (bucket st) shasum body ''application/octet-stream'' = Inr () \<longrightarrow>
      fst (upload c1 st shasum (PStr p)) = Inr () \<and>
      snd (upload c2 (snd (upload c1 st shasum (PStr p))) shasum f2) =
        st\<lparr>seen := insert shasum (seen st), fs := (fs st)(p := None),
           trace := trace st @
             [HeadObject (bucket st) shasum, Print (Uploading shasum (PStr p)),
              PutObject (bucket st) shasum body ''application/octet-stream'',
              Print (AlreadyUploaded shasum)]\<rparr>)"
proof -
  have again: "upload c2 (snd (upload c1 st shasum f1)) shasum f2 =
        (Inr (),
         (snd (upload c1 st shasum f1))
           \<lparr>trace := trace (snd (upload c1 st shasum f1)) @ [Print (AlreadyUploaded shasum)]\<rparr>)"
    if "fst (upload c1 st shasum f1) = Inr ()"
  proof -
    from that have "shasum \<in> seen (snd (upload c1 st shasum f1))"
      by (rule upload_success_seen)
    then show ?thesis
      by (rule upload_seen_fast_path)
  qed
  have once: "fst (upload c1 st shasum (PStr p)) = Inr () \<and>
      snd (upload c2 (snd (upload c1 st shasum (PStr p))) shasum f2) =
        st\<lparr>seen := insert shasum (seen st), fs := (fs st)(p := None),
           trace := trace st @
             [HeadObject (bucket st) shasum, Print (Uploading shasum (PStr p)),
              PutObject (bucket st) shasum body ''application/octet-stream'',
              Print (AlreadyUploaded shasum)]\<rparr>"
    if a: "shasum \<notin> seen st \<and>
      head_object c1 (bucket st) shasum = Inl (ClientError ''404'') \<and>
      fs st p = Some body \<and>
      put_object c1 (bucket st) shasum body ''application/octet-stream'' = Inr ()"
  proof -
    have first: "upload c1 st shasum (PStr p) =
        (Inr (),
         st\<lparr>seen := insert shasum (seen st), fs := (fs st)(p := None),
            trace := trace st @
              [HeadObject (bucket st) shasum, Print (Uploading shasum (PStr p)),
               PutObject (bucket st) shasum body ''application/octet-stream'']\<rparr>)"
      using a
      by (simp add: upload_def object_exists_remote_def emit_def open_rb_def unlink_def)
    show ?thesis
      unfolding first by (simp add: upload_seen_fast_path)
  qed
  show ?thesis
    using again once by blast
qed

text \<open>
  Two calls for \<^verbatim>\<open>cowrie/downloads/aaaa\<close> on a fresh sink, the second on a store that cannot
  be reached: once when the store holds the object, once when it does not.
\<close>

theorem upload_twice_witness:
  "fst (upload (store (Inr ()) (Inr ())) (start ''honeypot'' [''/tmp/x'' \<mapsto> ''MZ''])
          ''cowrie/downloads/aaaa'' (PStr ''/tmp/x'')) = Inr () \<and>
   upload (store (Inl (BotoCoreError ''unreachable'')) (Inr ()))
     (snd (upload (store (Inr ()) (Inr ())) (start ''honeypot'' [''/tmp/x'' \<mapsto> ''MZ''])
             ''cowrie/downloads/aaaa'' (PStr ''/tmp/x'')))
     ''cowrie/downloads/aaaa'' (PStr ''/tmp/x'') =
     (Inr (),
      \<lparr>bucket = ''honeypot'', seen = {''cowrie/downloads/aaaa''},
       fs = [''/tmp/x'' \<mapsto> ''MZ''],
       trace = [HeadObject ''honeypot'' ''cowrie/downloads/aaaa'',
                Print (SomebodyElseUploaded ''cowrie/downloads/aaaa''),
                Print (AlreadyUploaded ''cowrie/downloads/aaaa'')]\<rparr>) \<and>
   ''cowrie/downloads/aaaa'' \<notin> seen (start ''honeypot'' [''/tmp/x'' \<mapsto> ''MZ'']) \<and>
   head_object (store (Inl (ClientError ''404'')) (Inr ())) ''honeypot'' ''cowrie/downloads/aaaa''
     = Inl (ClientError ''404'') \<and>
   fs (start ''honeypot'' [''/tmp/x'' \<mapsto> ''MZ'']) ''/tmp/x'' = Some ''MZ'' \<and>
   put_object (store (Inl (ClientError ''404'')) (Inr ())) ''honeypot'' ''cowrie/downloads/aaaa''
     ''MZ'' ''application/octet-stream'' = Inr () \<and>
   fst (upload (store (Inl (ClientError ''404'')) (Inr ()))
          (start ''honeypot'' [''/tmp/x'' \<mapsto> ''MZ'']) ''cowrie/downloads/aaaa'' (PStr ''/tmp/x''))
     = Inr () \<and>
   snd (upload (store (Inl (BotoCoreError ''unreachable'')) (Inr ()))
     (snd (upload (store (Inl (ClientError ''404'')) (Inr ()))
             (start ''honeypot'' [''/tmp/x'' \<mapsto> ''MZ'']) ''cowrie/downloads/aaaa'' (PStr ''/tmp/x'')))
     ''cowrie/downloads/aaaa'' (PStr ''/tmp/x'')) =
      \<lparr>bucket = ''honeypot'', seen = {''cowrie/downloads/aaaa''},
       fs = [''/tmp/x'' \<mapsto> ''MZ''](''/tmp/x'' := None),
       trace = [HeadObject ''honeypot'' ''cowrie/downloads/aaaa'',
                Print (Uploading ''cowrie/downloads/aaaa'' (PStr ''/tmp/x'')),
                PutObject ''honeypot'' ''cowrie/downloads/aaaa'' ''MZ'' ''application/octet-stream'',
                Print (AlreadyUploaded ''cowrie/downloads/aaaa'')]\<rparr>"
  (is "?A1 \<and> ?A2 \<and> ?H1 \<and> ?H2 \<and> ?H3 \<and> ?H4 \<and> ?B1 \<and> ?B2")
proof -
  note th1 = upload_twice [where shasum = "''cowrie/downloads/aaaa''"
      and st = "start ''honeypot'' [''/tmp/x'' \<mapsto> ''MZ'']"
      and ?c1.0 = "store (Inr ()) (Inr ())"
      and ?c2.0 = "store (Inl (BotoCoreError ''unreachable'')) (Inr ())"
      and ?f1.0 = "PStr ''/tmp/x''" and ?f2.0 = "PStr ''/tmp/x''"
      and p = "''/tmp/x''" and body = "''MZ''", THEN conjunct1]
  note th2 = upload_twice [where shasum = "''cowrie/downloads/aaaa''"
      and st = "start ''honeypot'' [''/tmp/x'' \<mapsto> ''MZ'']"
      and ?c1.0 = "store (Inl (ClientError ''404'')) (Inr ())"
      and ?c2.0 = "store (Inl (BotoCoreError ''unreachable'')) (Inr ())"
      and ?f1.0 = "PStr ''/tmp/x''" and ?f2.0 = "PStr ''/tmp/x''"
      and p = "''/tmp/x''" and body = "''MZ''", THEN conjunct2]
  have found: "upload (store (Inr ()) (Inr ())) (start ''honeypot'' [''/tmp/x'' \<mapsto> ''MZ''])
          ''cowrie/downloads/aaaa'' (PStr ''/tmp/x'') =
      (Inr (),
       \<lparr>bucket = ''honeypot'', seen = {''cowrie/downloads/aaaa''},
        fs = [''/tmp/x'' \<mapsto> ''MZ''],
        trace = [HeadObject ''honeypot'' ''cowrie/downloads/aaaa'',
                 Print (SomebodyElseUploaded ''cowrie/downloads/aaaa'')]\<rparr>)"
    by (simp add: upload_def object_exists_remote_def emit_def start_def store_def)
  have a1: ?A1
    by (simp only: found fst_conv)
  have a2: ?A2
    using th1 [THEN mp, OF a1] by (simp add: found)
  have h: "?H1 \<and> ?H2 \<and> ?H3 \<and> ?H4"
    by (simp add: start_def store_def)
  have b: "?B1 \<and> ?B2"
    using th2 by (simp add: start_def store_def)
  show ?thesis
    using a1 a2 h b by blast
qed

subsection \<open>C6: the object is in the store\<close>

text \<open>
  Claim C6. The key is not in \<open>seen\<close> and the probe returns. Then \<open>upload\<close> issues no put,
  prints that somebody else uploaded the object, adds the key to \<open>seen\<close> and leaves the
  files as they are.
\<close>

theorem upload_found:
  assumes "shasum \<notin> seen st"
    and "head_object c (bucket st) shasum = Inr ()"
  shows "upload c st shasum filename =
     (Inr (),
      st\<lparr>seen := insert shasum (seen st),
         trace := trace st @ [HeadObject (bucket st) shasum, Print (SomebodyElseUploaded shasum)]\<rparr>)"
  using assms
  by (simp add: upload_def object_exists_remote_def emit_def)

text \<open>
  The store holds the object.
\<close>

theorem upload_found_witness:
  "''cowrie/downloads/aaaa'' \<notin> seen (start ''honeypot'' [''/tmp/x'' \<mapsto> ''MZ'']) \<and>
   head_object (store (Inr ()) (Inr ())) ''honeypot'' ''cowrie/downloads/aaaa'' = Inr () \<and>
   upload (store (Inr ()) (Inr ())) (start ''honeypot'' [''/tmp/x'' \<mapsto> ''MZ''])
       ''cowrie/downloads/aaaa'' (PStr ''/tmp/x'') =
     (Inr (),
      \<lparr>bucket = ''honeypot'', seen = {''cowrie/downloads/aaaa''}, fs = [''/tmp/x'' \<mapsto> ''MZ''],
       trace = [HeadObject ''honeypot'' ''cowrie/downloads/aaaa'',
                Print (SomebodyElseUploaded ''cowrie/downloads/aaaa'')]\<rparr>)"
  using upload_found [of "''cowrie/downloads/aaaa''" "start ''honeypot'' [''/tmp/x'' \<mapsto> ''MZ'']"
      "store (Inr ()) (Inr ())" "PStr ''/tmp/x''"]
  by (simp add: start_def store_def)

subsection \<open>C7: no session\<close>

text \<open>
  Claim C7. A generic record whose \<^verbatim>\<open>session\<close> field is absent or has a false truth value
  (the empty string among them): \<open>seen\<close> is as before, and the trace grows by nothing, or by
  the two lines of the handler when the encoder raises TypeError. No probe, no put and no
  line of \<open>upload\<close> appears, so no call of \<open>upload\<close> was made and no key was formed.
  \<open>write_entry\<close> returns normally, but for an exception of the encoder that is no
  TypeError.
\<close>

theorem write_no_session_dropped:
  assumes "map_of e ''eventid'' = Some evid"
    and "evid \<noteq> PStr ''cowrie.session.file_download''"
    and "evid \<noteq> PStr ''cowrie.session.file_upload''"
    and "(case map_of e ''session'' of None \<Rightarrow> True | Some s \<Rightarrow> \<not> truthy s)"
  shows "fst (write_entry hexdigest tfname c st e) =
       (case snd (json_dump (strip_legacy e)) of
          None \<Rightarrow> Inr ()
        | Some x \<Rightarrow> if is_TypeError x then Inr () else Inl x) \<and>
     seen (snd (snd (write_entry hexdigest tfname c st e))) = seen st \<and>
     trace (snd (snd (write_entry hexdigest tfname c st e))) =
       trace st @
       (case snd (json_dump (strip_legacy e)) of
          None \<Rightarrow> []
        | Some x \<Rightarrow>
            if is_TypeError x
              then [Print (CantSerialize (strip_legacy e)), Print (ErrorText x)]
            else [])"
proof -
  have sess: "(case map_of (strip_legacy e) ''session'' of None \<Rightarrow> True | Some s \<Rightarrow> \<not> truthy s)"
    using assms(4) by (simp add: map_of_strip_legacy session_not_legacy)
  obtain out r where out: "json_dump (strip_legacy e) = (out, r)"
    by (cases "json_dump (strip_legacy e)")
  show ?thesis
    using assms(1-3) sess out
    by (cases r)
      (auto simp: write_entry_def getitem_def Let_def json_dumps_json_dump
        except_TypeError_def cant_serialize_def emit_def
        split: option.splits)
qed

text \<open>
  A record with the empty session string.
\<close>

theorem write_no_session_dropped_witness:
  "map_of [(''eventid'', PStr ''cowrie.client.version''), (''session'', PStr ''''),
           (''version'', PStr ''SSH-2.0-Go'')] ''eventid'' = Some (PStr ''cowrie.client.version'') \<and>
   PStr ''cowrie.client.version'' \<noteq> PStr ''cowrie.session.file_download'' \<and>
   PStr ''cowrie.client.version'' \<noteq> PStr ''cowrie.session.file_upload'' \<and>
   (case map_of [(''eventid'', PStr ''cowrie.client.version''), (''session'', PStr ''''),
           (''version'', PStr ''SSH-2.0-Go'')] ''session'' of
      None \<Rightarrow> True | Some s \<Rightarrow> \<not> truthy s) \<and>
   fst (write_entry (fixed_digest ''deadbeef'') ''/tmp/t'' (store (Inl (ClientError ''404'')) (Inr ()))
       (start ''honeypot'' Map.empty)
       [(''eventid'', PStr ''cowrie.client.version''), (''session'', PStr ''''),
        (''version'', PStr ''SSH-2.0-Go'')]) = Inr () \<and>
   seen (snd (snd (write_entry (fixed_digest ''deadbeef'') ''/tmp/t''
       (store (Inl (ClientError ''404'')) (Inr ())) (start ''honeypot'' Map.empty)
       [(''eventid'', PStr ''cowrie.client.version''), (''session'', PStr ''''),
        (''version'', PStr ''SSH-2.0-Go'')]))) = {} \<and>
   trace (snd (snd (write_entry (fixed_digest ''deadbeef'') ''/tmp/t''
       (store (Inl (ClientError ''404'')) (Inr ())) (start ''honeypot'' Map.empty)
       [(''eventid'', PStr ''cowrie.client.version''), (''session'', PStr ''''),
        (''version'', PStr ''SSH-2.0-Go'')]))) = []"
  using write_no_session_dropped [where e = "[(''eventid'', PStr ''cowrie.client.version''),
        (''session'', PStr ''''), (''version'', PStr ''SSH-2.0-Go'')]"
      and evid = "PStr ''cowrie.client.version''" and hexdigest = "fixed_digest ''deadbeef''"
      and tfname = "''/tmp/t''" and c = "store (Inl (ClientError ''404'')) (Inr ())"
      and st = "start ''honeypot'' Map.empty"]
  by (simp add: start_def
      json_dump_def strip_legacy_def legacy_key_def startswith_def del_key_def
      json_str_def escape_char_def)

subsection \<open>C8: a record that cannot be encoded\<close>

text \<open>
  Claim C8 as stated has \<open>write\<close> catch every exception of the serialization. The clause
  is \<^verbatim>\<open>except TypeError\<close>. A generic record that holds itself under the key \<^verbatim>\<open>self\<close>:
  \<^verbatim>\<open>json.dump\<close> raises ValueError after the text before the reference, and the exception
  leaves \<open>write_entry\<close>; nothing is printed, and the temporary file stays with that text.
\<close>

theorem write_serialization_error_propagates_counterexample:
  "json_dump (strip_legacy [(''eventid'', PStr ''cowrie.command.input''),
                            (''session'', PStr ''abc123''), (''self'', PCycle)]) =
     (''{\"eventid\":\"cowrie.command.input\",\"session\":\"abc123\",\"self\":'',
      Some (ValueError ''Circular reference detected'')) \<and>
   write_entry (fixed_digest ''deadbeef'') ''/tmp/t'' (store (Inl (ClientError ''404'')) (Inr ()))
       (start ''honeypot'' Map.empty)
       [(''eventid'', PStr ''cowrie.command.input''), (''session'', PStr ''abc123''),
        (''self'', PCycle)] =
     (Inl (ValueError ''Circular reference detected''),
      [(''eventid'', PStr ''cowrie.command.input''), (''session'', PStr ''abc123''),
       (''self'', PCycle)],
      \<lparr>bucket = ''honeypot'', seen = {},
       fs = [''/tmp/t'' \<mapsto> ''{\"eventid\":\"cowrie.command.input\",\"session\":\"abc123\",\"self\":''],
       trace = []\<rparr>)"
  by (simp add: write_entry_def getitem_def except_TypeError_def start_def
      json_dump_def strip_legacy_def legacy_key_def startswith_def del_key_def
      json_str_def escape_char_def)

text \<open>
  Claim C8, as the code has it. On a generic record \<open>write_entry\<close> raises only what the
  encoder raises and the clause does not catch: its outcome is an exception exactly when
  \<^verbatim>\<open>json.dump\<close> raises one that is no TypeError. When \<^verbatim>\<open>json.dump\<close> raises the TypeError \<open>x\<close>
  after writing \<open>out\<close>, the handler prints the record and the error, \<open>write_entry\<close> returns
  normally and nothing is handed to \<open>upload\<close>; when \<open>x\<close> is another exception (ValueError,
  RecursionError) it is the outcome of \<open>write_entry\<close> and nothing is printed. In both cases
  the temporary file is left with \<open>out\<close>.
\<close>

theorem write_serialization_error_caught:
  assumes "map_of e ''eventid'' = Some evid"
    and "evid \<noteq> PStr ''cowrie.session.file_download''"
    and "evid \<noteq> PStr ''cowrie.session.file_upload''"
  shows "fst (write_entry hexdigest tfname c st e) =
       (case snd (json_dump (strip_legacy e)) of
          None \<Rightarrow> Inr ()
        | Some x \<Rightarrow> if is_TypeError x then Inr () else Inl x) \<and>
     (\<forall>out x. json_dump (strip_legacy e) = (out, Some x) \<longrightarrow>
        write_entry hexdigest tfname c st e =
          (if is_TypeError x
             then (Inr (), strip_legacy e,
                   st\<lparr>fs := (fs st)(tfname \<mapsto> out),
                      trace := trace st @
                        [Print (CantSerialize (strip_legacy e)), Print (ErrorText x)]\<rparr>)
           else (Inl x, strip_legacy e, st\<lparr>fs := (fs st)(tfname \<mapsto> out)\<rparr>)))"
proof -
  obtain out r where out: "json_dump (strip_legacy e) = (out, r)"
    by (cases "json_dump (strip_legacy e)")
  have outcome: "fst (write_entry hexdigest tfname c st e) =
       (case snd (json_dump (strip_legacy e)) of
          None \<Rightarrow> Inr ()
        | Some x \<Rightarrow> if is_TypeError x then Inr () else Inl x)"
  proof (cases r)
    case None
    have "is_TypeError x" if "str_add ''cowrie/events/'' v = Inl x" for v x
      using that by (cases v) (auto simp: str_add_def)
    then show ?thesis
      using assms out None
      by (auto simp: write_entry_def getitem_def Let_def json_dumps_json_dump
          except_TypeError_def split: option.splits sum.splits)
  next
    case (Some x)
    then show ?thesis
      using assms out
      by (simp add: write_entry_def getitem_def Let_def except_TypeError_def)
  qed
  have raised: "write_entry hexdigest tfname c st e =
          (if is_TypeError x
             then (Inr (), strip_legacy e,
                   st\<lparr>fs := (fs st)(tfname \<mapsto> out'),
                      trace := trace st @
                        [Print (CantSerialize (strip_legacy e)), Print (ErrorText x)]\<rparr>)
           else (Inl x, strip_legacy e, st\<lparr>fs := (fs st)(tfname \<mapsto> out')\<rparr>))"
    if "json_dump (strip_legacy e) = (out', Some x)" for out' x
    using assms that
    by (simp add: write_entry_def getitem_def Let_def except_TypeError_def
        cant_serialize_def emit_def)
  show ?thesis
    using outcome raised by blast
qed

text \<open>
  A record with a bytes value (TypeError, caught) and the record that holds itself
  (ValueError, raised).
\<close>

theorem write_serialization_error_caught_witness:
  "json_dump (strip_legacy [(''eventid'', PStr ''cowrie.command.input''),
                            (''session'', PStr ''abc123''), (''input'', PBytes ''ls'')]) =
     (''{\"eventid\":\"cowrie.command.input\",\"session\":\"abc123\",\"input\":'',
      Some (TypeError ''bytes'')) \<and>
   write_entry (fixed_digest ''deadbeef'') ''/tmp/t'' (store (Inl (ClientError ''404'')) (Inr ()))
       (start ''honeypot'' Map.empty)
       [(''eventid'', PStr ''cowrie.command.input''), (''session'', PStr ''abc123''),
        (''input'', PBytes ''ls'')] =
     (Inr (),
      [(''eventid'', PStr ''cowrie.command.input''), (''session'', PStr ''abc123''),
       (''input'', PBytes ''ls'')],
      \<lparr>bucket = ''honeypot'', seen = {},
       fs = [''/tmp/t'' \<mapsto> ''{\"eventid\":\"cowrie.command.input\",\"session\":\"abc123\",\"input\":''],
       trace = [Print (CantSerialize [(''eventid'', PStr ''cowrie.command.input''),
                                      (''session'', PStr ''abc123''), (''input'', PBytes ''ls'')]),
                Print (ErrorText (TypeError ''bytes''))]\<rparr>) \<and>
   json_dump (strip_legacy [(''eventid'', PStr ''cowrie.command.input''),
                            (''session'', PStr ''abc123''), (''self'', PCycle)]) =
     (''{\"eventid\":\"cowrie.command.input\",\"session\":\"abc123\",\"self\":'',
      Some (ValueError ''Circular reference detected'')) \<and>
   write_entry (fixed_digest ''deadbeef'') ''/tmp/t'' (store (Inl (ClientError ''404'')) (Inr ()))
       (start ''honeypot'' Map.empty)
       [(''eventid'', PStr ''cowrie.command.input''), (''session'', PStr ''abc123''),
        (''self'', PCycle)] =
     (Inl (ValueError ''Circular reference detected''),
      [(''eventid'', PStr ''cowrie.command.input''), (''session'', PStr ''abc123''),
       (''self'', PCycle)],
      \<lparr>bucket = ''honeypot'', seen = {},
       fs = [''/tmp/t'' \<mapsto> ''{\"eventid\":\"cowrie.command.input\",\"session\":\"abc123\",\"self\":''],
       trace = []\<rparr>)"
  (is "?J1 \<and> ?W1 \<and> ?J2 \<and> ?W2")
proof -
  have j1: ?J1
    by (simp add: json_dump_def strip_legacy_def legacy_key_def startswith_def del_key_def
        json_str_def escape_char_def)
  have j2: ?J2
    by (simp add: json_dump_def strip_legacy_def legacy_key_def startswith_def del_key_def
        json_str_def escape_char_def)
  have s1: "strip_legacy [(''eventid'', PStr ''cowrie.command.input''),
                           (''session'', PStr ''abc123''), (''input'', PBytes ''ls'')] =
      [(''eventid'', PStr ''cowrie.command.input''), (''session'', PStr ''abc123''),
       (''input'', PBytes ''ls'')]"
    by (simp add: strip_legacy_def legacy_key_def startswith_def del_key_def)
  have s2: "strip_legacy [(''eventid'', PStr ''cowrie.command.input''),
                           (''session'', PStr ''abc123''), (''self'', PCycle)] =
      [(''eventid'', PStr ''cowrie.command.input''), (''session'', PStr ''abc123''),
       (''self'', PCycle)]"
    by (simp add: strip_legacy_def legacy_key_def startswith_def del_key_def)
  have g1: "map_of [(''eventid'', PStr ''cowrie.command.input''), (''session'', PStr ''abc123''),
                    (''input'', PBytes ''ls'')] ''eventid'' = Some (PStr ''cowrie.command.input'')"
    by simp
  have g2: "map_of [(''eventid'', PStr ''cowrie.command.input''), (''session'', PStr ''abc123''),
                    (''self'', PCycle)] ''eventid'' = Some (PStr ''cowrie.command.input'')"
    by simp
  have n1: "PStr ''cowrie.command.input'' \<noteq> PStr ''cowrie.session.file_download''" by simp
  have n2: "PStr ''cowrie.command.input'' \<noteq> PStr ''cowrie.session.file_upload''" by simp
  have w1: ?W1
    using write_serialization_error_caught [OF g1 n1 n2, of "fixed_digest ''deadbeef''" "''/tmp/t''"
        "store (Inl (ClientError ''404'')) (Inr ())" "start ''honeypot'' Map.empty",
        THEN conjunct2, rule_format, OF j1]
    by (simp add: s1 start_def)
  have w2: ?W2
    using write_serialization_error_caught [OF g2 n1 n2, of "fixed_digest ''deadbeef''" "''/tmp/t''"
        "store (Inl (ClientError ''404'')) (Inr ())" "start ''honeypot'' Map.empty",
        THEN conjunct2, rule_format, OF j2]
    by (simp add: s2 start_def)
  show ?thesis
    using j1 w1 j2 w2 by (intro conjI)
qed

subsection \<open>C9: the set of seen keys\<close>

text \<open>
  Claim C9. \<open>start\<close> creates \<open>seen\<close> empty and \<open>stop\<close> leaves it. \<open>upload\<close> adds its key in
  two cases, for a key not yet in \<open>seen\<close>: the probe returns, or the probe raises 404, the
  file is read and the put returns; in every other case \<open>seen\<close> is unchanged. So \<open>seen\<close>
  only grows under \<open>upload\<close>. \<open>write_entry\<close> leaves \<open>seen\<close> as it is or ends in the state
  of a call of \<open>upload\<close> that started with the same \<open>seen\<close>, so \<open>seen\<close> only grows under
  \<open>write_entry\<close> too.
\<close>

theorem seen_changes_only_in_upload:
  "seen (start cfg_bucket files) = {} \<and>
   seen (stop st) = seen st \<and>
   seen (snd (upload c st k f)) =
     (if k \<notin> seen st \<and>
         (case head_object c (bucket st) k of
            Inr u \<Rightarrow> True
          | Inl (ClientError code) \<Rightarrow>
              code = ''404'' \<and>
              (case open_rb (fs st) f of
                 Inl x \<Rightarrow> False
               | Inr body \<Rightarrow>
                   (case put_object c (bucket st) k body ''application/octet-stream'' of
                      Inl x \<Rightarrow> False
                    | Inr u \<Rightarrow> True))
          | Inl x \<Rightarrow> False)
      then insert k (seen st) else seen st) \<and>
   seen st \<subseteq> seen (snd (upload c st k f)) \<and>
   (seen (snd (snd (write_entry hexdigest tfname c st e))) = seen st \<or>
    (\<exists>k' f' st1. seen st1 = seen st \<and>
       snd (snd (write_entry hexdigest tfname c st e)) = snd (upload c st1 k' f'))) \<and>
   seen st \<subseteq> seen (snd (snd (write_entry hexdigest tfname c st e)))"
proof -
  have up: "seen s \<subseteq> seen (snd (upload c s k' f'))" for s k' f'
    unfolding seen_upload by auto
  have wr: "seen st \<subseteq> seen (snd (snd (write_entry hexdigest tfname c st e)))"
    using write_entry_seen[of hexdigest tfname c st e] up by (metis order_refl)
  show ?thesis
    using up[of st k f] wr write_entry_seen[of hexdigest tfname c st e] seen_upload[of c st k f]
    by (simp add: start_def stop_def)
qed

text \<open>
  \<open>seen\<close> after \<open>start\<close> and after one \<open>upload\<close>, for the four answers of the store:
  not found and stored, found, access denied, not found and the put fails.
\<close>

theorem seen_changes_only_in_upload_witness:
  "seen (start ''honeypot'' [''/tmp/x'' \<mapsto> ''MZ'']) = {} \<and>
   seen (snd (upload (store (Inl (ClientError ''404'')) (Inr ()))
                (start ''honeypot'' [''/tmp/x'' \<mapsto> ''MZ''])
                ''cowrie/downloads/aaaa'' (PStr ''/tmp/x''))) = {''cowrie/downloads/aaaa''} \<and>
   seen (snd (upload (store (Inr ()) (Inr ()))
                (start ''honeypot'' [''/tmp/x'' \<mapsto> ''MZ''])
                ''cowrie/downloads/aaaa'' (PStr ''/tmp/x''))) = {''cowrie/downloads/aaaa''} \<and>
   seen (snd (upload (store (Inl (ClientError ''403'')) (Inr ()))
                (start ''honeypot'' [''/tmp/x'' \<mapsto> ''MZ''])
                ''cowrie/downloads/aaaa'' (PStr ''/tmp/x''))) = {} \<and>
   seen (snd (upload (store (Inl (ClientError ''404'')) (Inl (BotoCoreError ''timeout'')))
                (start ''honeypot'' [''/tmp/x'' \<mapsto> ''MZ''])
                ''cowrie/downloads/aaaa'' (PStr ''/tmp/x''))) = {}"
  using
    seen_changes_only_in_upload [where cfg_bucket = "''honeypot''" and files = "[''/tmp/x'' \<mapsto> ''MZ'']"
      and st = "start ''honeypot'' [''/tmp/x'' \<mapsto> ''MZ'']"
      and c = "store (Inl (ClientError ''404'')) (Inr ())"
      and k = "''cowrie/downloads/aaaa''" and f = "PStr ''/tmp/x''"]
    seen_changes_only_in_upload [where cfg_bucket = "''honeypot''" and files = "[''/tmp/x'' \<mapsto> ''MZ'']"
      and st = "start ''honeypot'' [''/tmp/x'' \<mapsto> ''MZ'']"
      and c = "store (Inr ()) (Inr ())"
      and k = "''cowrie/downloads/aaaa''" and f = "PStr ''/tmp/x''"]
    seen_changes_only_in_upload [where cfg_bucket = "''honeypot''" and files = "[''/tmp/x'' \<mapsto> ''MZ'']"
      and st = "start ''honeypot'' [''/tmp/x'' \<mapsto> ''MZ'']"
      and c = "store (Inl (ClientError ''403'')) (Inr ())"
      and k = "''cowrie/downloads/aaaa''" and f = "PStr ''/tmp/x''"]
    seen_changes_only_in_upload [where cfg_bucket = "''honeypot''" and files = "[''/tmp/x'' \<mapsto> ''MZ'']"
      and st = "start ''honeypot'' [''/tmp/x'' \<mapsto> ''MZ'']"
      and c = "store (Inl (ClientError ''404'')) (Inl (BotoCoreError ''timeout''))"
      and k = "''cowrie/downloads/aaaa''" and f = "PStr ''/tmp/x''"]
  by (simp add: start_def store_def open_rb_def)

subsection \<open>C10: the record is mutated in place\<close>

text \<open>
  Claim C10. After \<open>write_entry\<close> on a generic record, the record of the caller is the
  input without the fields whose name starts with \<^verbatim>\<open>log_\<close> or is \<^verbatim>\<open>time\<close> or \<^verbatim>\<open>system\<close>,
  in the same order; every other field is as before.
\<close>

theorem write_strips_record_in_place:
  assumes "map_of e ''eventid'' = Some evid"
    and "evid \<noteq> PStr ''cowrie.session.file_download''"
    and "evid \<noteq> PStr ''cowrie.session.file_upload''"
  shows "fst (snd (write_entry hexdigest tfname c st e)) = filter (\<lambda>kv. \<not> legacy_key (fst kv)) e \<and>
     (\<forall>k. map_of (fst (snd (write_entry hexdigest tfname c st e))) k =
           (if take 4 k = ''log_'' \<or> k = ''time'' \<or> k = ''system'' then None else map_of e k))"
proof -
  have "fst (snd (write_entry hexdigest tfname c st e)) = strip_legacy e"
    using assms
    by (auto simp: write_entry_def getitem_def Let_def except_TypeError_def
        split: option.splits prod.splits sum.splits)
  then show ?thesis
    using map_of_strip_legacy[of e]
    by (simp add: strip_legacy_filter legacy_key_iff)
qed

text \<open>
  A record with the three kinds of legacy field, and a field \<^verbatim>\<open>logo\<close> that stays.
\<close>

theorem write_strips_record_in_place_witness:
  "map_of [(''eventid'', PStr ''cowrie.login.success''), (''log_namespace'', PStr ''cowrie''),
           (''session'', PStr ''abc123''), (''time'', PInt 7), (''system'', PStr ''ssh''),
           (''logo'', PNone)] ''eventid'' = Some (PStr ''cowrie.login.success'') \<and>
   PStr ''cowrie.login.success'' \<noteq> PStr ''cowrie.session.file_download'' \<and>
   PStr ''cowrie.login.success'' \<noteq> PStr ''cowrie.session.file_upload'' \<and>
   fst (snd (write_entry (fixed_digest ''deadbeef'') ''/tmp/t''
       (store (Inl (ClientError ''404'')) (Inr ())) (start ''honeypot'' Map.empty)
       [(''eventid'', PStr ''cowrie.login.success''), (''log_namespace'', PStr ''cowrie''),
        (''session'', PStr ''abc123''), (''time'', PInt 7), (''system'', PStr ''ssh''),
        (''logo'', PNone)])) =
     [(''eventid'', PStr ''cowrie.login.success''), (''session'', PStr ''abc123''),
      (''logo'', PNone)]"
  using write_strips_record_in_place [where e = "[(''eventid'', PStr ''cowrie.login.success''),
        (''log_namespace'', PStr ''cowrie''), (''session'', PStr ''abc123''), (''time'', PInt 7),
        (''system'', PStr ''ssh''), (''logo'', PNone)]"
      and evid = "PStr ''cowrie.login.success''" and hexdigest = "fixed_digest ''deadbeef''"
      and tfname = "''/tmp/t''" and c = "store (Inl (ClientError ''404'')) (Inr ())"
      and st = "start ''honeypot'' Map.empty"]
  by (simp add: legacy_key_def startswith_def)

end
